theory Spec2Isabelle
  imports Complex_Main "HOL-Library.Sublist" "HOL-Library.AList"
begin

section \<open>Python text and bytes\<close>

text \<open>
  A Python \<open>bytes\<close> value is a list of 8-bit characters. A Python \<open>str\<close> is held as
  its UTF-8 encoding, so \<open>str.encode()\<close> is the identity and \<open>bytes.decode()\<close> is the
  identity on well-formed UTF-8 and raises \<open>UnicodeDecodeError\<close> elsewhere. The
  delimiters the server uses (\<open>|\<close>, space, newline) are ASCII, and an ASCII byte never
  occurs inside a multi-byte UTF-8 sequence, so splitting and searching on the encoding
  agree with splitting and searching on the code points.

  The classification of characters (\<open>is_space\<close>, \<open>upper\<close>, the digits of
  \<open>py_int\<close>) is the ASCII part of Python's; code points beyond ASCII are neither white
  space, nor digits, nor changed by \<open>upper\<close> here.
\<close>

type_synonym bytes = "char list"

definition cont :: "char \<Rightarrow> bool" where
  "cont c \<longleftrightarrow> (0x80::nat) \<le> of_char c \<and> (of_char c :: nat) \<le> 0xBF"

definition lead_len :: "char \<Rightarrow> nat" where
  "lead_len c =
     (let b = (of_char c :: nat) in
      if b < 0x80 then 1
      else if 0xC2 \<le> b \<and> b \<le> 0xDF then 2
      else if 0xE0 \<le> b \<and> b \<le> 0xEF then 3
      else if 0xF0 \<le> b \<and> b \<le> 0xF4 then 4
      else 0)"

definition second_ok :: "char \<Rightarrow> char \<Rightarrow> bool" where
  "second_ok l c =
     (let b = (of_char l :: nat); x = (of_char c :: nat) in
      if b = 0xE0 then 0xA0 \<le> x \<and> x \<le> 0xBF
      else if b = 0xED then 0x80 \<le> x \<and> x \<le> 0x9F
      else if b = 0xF0 then 0x90 \<le> x \<and> x \<le> 0xBF
      else if b = 0xF4 then 0x80 \<le> x \<and> x \<le> 0x8F
      else cont c)"

text \<open>
  \<open>utf8_scan bs\<close> reads one unit from the front of a non-empty \<open>bs\<close>: the number of
  bytes of the unit (at least one) and whether the unit is a complete well-formed UTF-8
  sequence. An ill-formed unit is the longest prefix that could still start a well-formed
  sequence, which is what CPython's decoder hands to its error handler.
\<close>

definition utf8_scan :: "bytes \<Rightarrow> nat \<times> bool" where
  "utf8_scan bs =
     (case bs of
        [] \<Rightarrow> (1, False)
      | l # r \<Rightarrow>
          let n = lead_len l in
          if n = 0 then (1, False)
          else if n = 1 then (1, True)
          else (case r of
                  [] \<Rightarrow> (1, False)
                | c # r2 \<Rightarrow>
                    if \<not> second_ok l c then (1, False)
                    else if n = 2 then (2, True)
                    else (case r2 of
                            [] \<Rightarrow> (2, False)
                          | d # r3 \<Rightarrow>
                              if \<not> cont d then (2, False)
                              else if n = 3 then (3, True)
                              else (case r3 of
                                      [] \<Rightarrow> (3, False)
                                    | e # _ \<Rightarrow> if cont e then (4, True) else (3, False)))))"

function utf8_valid :: "bytes \<Rightarrow> bool" where
  "utf8_valid bs =
     (if bs = [] then True
      else (snd (utf8_scan bs) \<and> utf8_valid (drop (fst (utf8_scan bs)) bs)))"
  by pat_completeness auto
termination
  by (relation "measure length") (auto simp: utf8_scan_def Let_def split: list.split)

declare utf8_valid.simps [simp del]

text \<open>\<open>data.decode()\<close>: \<open>None\<close> is \<open>UnicodeDecodeError\<close>.\<close>

definition decode :: "bytes \<Rightarrow> string option" where
  "decode data = (if utf8_valid data then Some data else None)"

text \<open>\<open>data.decode('utf-8', errors='replace')\<close>: each ill-formed unit becomes U+FFFD.\<close>

function decode_replace :: "bytes \<Rightarrow> string" where
  "decode_replace bs =
     (if bs = [] then []
      else (if snd (utf8_scan bs) then take (fst (utf8_scan bs)) bs
            else [CHR 0xEF, CHR 0xBF, CHR 0xBD])
           @ decode_replace (drop (fst (utf8_scan bs)) bs))"
  by pat_completeness auto
termination
  by (relation "measure length") (auto simp: utf8_scan_def Let_def split: list.split)

declare decode_replace.simps [simp del]

text \<open>\<open>s.split(sep, maxsplit)\<close> for a one-character separator.\<close>

fun split :: "char \<Rightarrow> nat \<Rightarrow> string \<Rightarrow> string list" where
  "split sep 0 s = [s]"
| "split sep (Suc n) s =
     (if sep \<in> set s
      then takeWhile (\<lambda>c. c \<noteq> sep) s # split sep n (tl (dropWhile (\<lambda>c. c \<noteq> sep) s))
      else [s])"

definition is_space :: "char \<Rightarrow> bool" where
  "is_space c \<longleftrightarrow>
     (let b = (of_char c :: nat) in (9 \<le> b \<and> b \<le> 13) \<or> (28 \<le> b \<and> b \<le> 32))"

definition strip :: "string \<Rightarrow> string" where
  "strip s = rev (dropWhile is_space (rev (dropWhile is_space s)))"

definition upper_char :: "char \<Rightarrow> char" where
  "upper_char c =
     (let b = (of_char c :: nat) in if 97 \<le> b \<and> b \<le> 122 then char_of (b - 32) else c)"

definition upper :: "string \<Rightarrow> string" where
  "upper s = map upper_char s"

definition is_digit :: "char \<Rightarrow> bool" where
  "is_digit c \<longleftrightarrow> (48::nat) \<le> of_char c \<and> (of_char c :: nat) \<le> 57"

text \<open>
  The digit part of an integer literal accepted by \<open>int()\<close>: digits, with single
  underscores allowed between two digits.
\<close>

fun digits_ok :: "string \<Rightarrow> bool" where
  "digits_ok [] = False"
| "digits_ok [c] = is_digit c"
| "digits_ok (c # d # r) =
     (is_digit c \<and> (if d = CHR ''_'' then digits_ok r else digits_ok (d # r)))"

fun digits_val :: "nat \<Rightarrow> string \<Rightarrow> nat" where
  "digits_val acc [] = acc"
| "digits_val acc (c # r) =
     (if c = CHR ''_'' then digits_val acc r
      else digits_val (10 * acc + (of_char c - 48)) r)"

text \<open>\<open>int(s)\<close>: \<open>None\<close> is \<open>ValueError\<close>.\<close>

definition py_int :: "string \<Rightarrow> int option" where
  "py_int s =
     (let t = strip s;
          neg = (t \<noteq> [] \<and> hd t = CHR ''-'');
          body = (if t \<noteq> [] \<and> (hd t = CHR ''-'' \<or> hd t = CHR ''+'') then tl t else t)
      in if digits_ok body
         then Some (if neg then - int (digits_val 0 body) else int (digits_val 0 body))
         else None)"

text \<open>\<open>str(n)\<close> for integers.\<close>

function str_nat :: "nat \<Rightarrow> string" where
  "str_nat n =
     (if n < 10 then [char_of (48 + n)] else str_nat (n div 10) @ [char_of (48 + n mod 10)])"
  by pat_completeness auto
termination
  by (relation "measure id") auto

declare str_nat.simps [simp del]

definition str_int :: "int \<Rightarrow> string" where
  "str_int i = (if i < 0 then CHR ''-'' # str_nat (nat (- i)) else str_nat (nat i))"

section \<open>Reliable datagram channel\<close>

definition BUFFER_SIZE :: nat where "BUFFER_SIZE = 1024"

type_synonym addr = "string \<times> nat"

text \<open>
  What one call of \<open>sock.recvfrom\<close> gives: \<open>socket.timeout\<close>, or a datagram and the
  address it came from. The socket is described by the outcome of its \<open>k\<close>-th
  \<open>recvfrom\<close>, for every \<open>k\<close>; \<open>random.random()\<close> likewise by its \<open>k\<close>-th value,
  a number in \<open>[0, 1)\<close>. A datagram longer than the buffer is cut to \<open>BUFFER_SIZE\<close>
  bytes. The sequence number, drawn by \<open>random.randint(0, 10000)\<close>, is a parameter.
  Errors of the socket other than the timeout are outside the model.
\<close>

datatype recv_event = Timeout | Datagram bytes addr

definition simulate_packet_loss :: "real \<Rightarrow> real \<Rightarrow> bool" where
  "simulate_packet_loss random packet_loss_rate \<longleftrightarrow> random < packet_loss_rate"





text \<open>
  What \<open>reliable_recv\<close> does with one datagram that was not dropped by the simulated
  loss: \<open>Some ((payload, addr, is_binary), acks)\<close> when it returns to its caller,
  with the datagrams \<open>acks\<close> it handed to \<open>sock.sendto\<close> before that; \<open>None\<close>
  when the loop goes on to the next \<open>recvfrom\<close> (too few \<open>|\<close> in a frame that is not
  UTF-8, or an exception caught by \<open>except Exception\<close>), in which case nothing was sent.
\<close>

definition recv_datagram ::
  "bytes \<Rightarrow> addr \<Rightarrow> ((bytes \<times> addr \<times> bool) \<times> (bytes \<times> addr) list) option" where
  "recv_datagram data addr =
     (case decode data of
        Some decoded \<Rightarrow>
          if CHR ''|'' \<in> set decoded then
            (case split (CHR ''|'') 1 decoded of
               [seq_num, payload] \<Rightarrow> Some ((payload, addr, False), [(seq_num, addr)])
             | _ \<Rightarrow> None)
          else Some ((decoded, addr, False), [])
      | None \<Rightarrow>
          (let parts = split (CHR ''|'') 2 data in
           if length parts \<ge> 3 then
             (case decode (parts ! 0) of
                None \<Rightarrow> None
              | Some seq_num \<Rightarrow> Some ((parts ! 2, addr, True), [(seq_num, addr)]))
           else None))"

text \<open>
  The loop of the server's \<open>reliable_recv\<close>, at its \<open>k\<close>-th \<open>recvfrom\<close> and
  \<open>r\<close>-th random draw. It returns the triple of the source, the acknowledgments sent
  and the number of \<open>recvfrom\<close> calls made; \<open>None\<close> is a loop that never ends.
\<close>

partial_function (option) reliable_recv ::
  "real \<Rightarrow> (nat \<Rightarrow> real) \<Rightarrow> (nat \<Rightarrow> recv_event) \<Rightarrow> nat \<Rightarrow> nat \<Rightarrow>
   ((bytes \<times> addr \<times> bool) \<times> (bytes \<times> addr) list \<times> nat) option" where
  "reliable_recv packet_loss_rate random net k r =
     (case net k of
        Timeout \<Rightarrow> reliable_recv packet_loss_rate random net (k + 1) r
      | Datagram data addr \<Rightarrow>
          if simulate_packet_loss (random r) packet_loss_rate
          then reliable_recv packet_loss_rate random net (k + 1) (r + 1)
          else (case recv_datagram (take BUFFER_SIZE data) addr of
                  Some (res, acks) \<Rightarrow> Some (res, acks, k + 1)
                | None \<Rightarrow> reliable_recv packet_loss_rate random net (k + 1) (r + 1)))"

text \<open>
  The client's \<open>ForumClient.reliable_recv\<close>: the same treatment of a datagram, the
  payload alone is returned, and a timeout returns Python's \<open>None\<close> (here the payload
  \<open>None\<close>).
\<close>

definition client_recv_datagram ::
  "bytes \<Rightarrow> addr \<Rightarrow> (bytes \<times> (bytes \<times> addr) list) option" where
  "client_recv_datagram data addr =
     (case decode data of
        Some decoded \<Rightarrow>
          if CHR ''|'' \<in> set decoded then
            (case split (CHR ''|'') 1 decoded of
               [seq_num, payload] \<Rightarrow> Some (payload, [(seq_num, addr)])
             | _ \<Rightarrow> None)
          else Some (decoded, [])
      | None \<Rightarrow>
          (let parts = split (CHR ''|'') 2 data in
           if length parts \<ge> 3 then
             (case decode (parts ! 0) of
                None \<Rightarrow> None
              | Some seq_num \<Rightarrow> Some (parts ! 2, [(seq_num, addr)]))
           else None))"

partial_function (option) client_reliable_recv ::
  "real \<Rightarrow> (nat \<Rightarrow> real) \<Rightarrow> (nat \<Rightarrow> recv_event) \<Rightarrow> nat \<Rightarrow> nat \<Rightarrow>
   (bytes option \<times> (bytes \<times> addr) list \<times> nat) option" where
  "client_reliable_recv packet_loss_rate random net k r =
     (case net k of
        Timeout \<Rightarrow> Some (None, [], k + 1)
      | Datagram data addr \<Rightarrow>
          if simulate_packet_loss (random r) packet_loss_rate
          then client_reliable_recv packet_loss_rate random net (k + 1) (r + 1)
          else (case client_recv_datagram (take BUFFER_SIZE data) addr of
                  Some (payload, acks) \<Rightarrow> Some (Some payload, acks, k + 1)
                | None \<Rightarrow> client_reliable_recv packet_loss_rate random net (k + 1) (r + 1)))"

declare reliable_recv.simps [code]
declare client_reliable_recv.simps [code]

section \<open>More of Python's text operations\<close>

text \<open>\<open>s.split()\<close>: the maximal runs of characters that are not white space.\<close>

fun words_acc :: "string \<Rightarrow> string \<Rightarrow> string list" where
  "words_acc cur [] = (if cur = [] then [] else [cur])"
| "words_acc cur (c # cs) =
     (if is_space c then (if cur = [] then words_acc [] cs else cur # words_acc [] cs)
      else words_acc (cur @ [c]) cs)"

definition words :: "string \<Rightarrow> string list" where
  "words s = words_acc [] s"

text \<open>\<open>s.replace(old, new, 1)\<close>.\<close>

fun replace_first :: "string \<Rightarrow> string \<Rightarrow> string \<Rightarrow> string" where
  "replace_first old new [] = (if old = [] then new else [])"
| "replace_first old new (c # cs) =
     (if prefix old (c # cs) then new @ drop (length old) (c # cs)
      else c # replace_first old new cs)"

text \<open>
  Reading in text mode translates \<open>\r\n\<close> and \<open>\r\<close> to \<open>\n\<close>; \<open>readlines\<close> cuts
  after every \<open>\n\<close> and keeps it.
\<close>

fun universal_newlines :: "string \<Rightarrow> string" where
  "universal_newlines [] = []"
| "universal_newlines [c] = (if c = CHR 0x0D then [CHR 0x0A] else [c])"
| "universal_newlines (c # d # r) =
     (if c = CHR 0x0D
      then (if d = CHR 0x0A then CHR 0x0A # universal_newlines r
            else CHR 0x0A # universal_newlines (d # r))
      else c # universal_newlines (d # r))"

fun readlines_acc :: "string \<Rightarrow> string \<Rightarrow> string list" where
  "readlines_acc cur [] = (if cur = [] then [] else [cur])"
| "readlines_acc cur (c # cs) =
     (if c = CHR 0x0A then (cur @ [c]) # readlines_acc [] cs
      else readlines_acc (cur @ [c]) cs)"

definition readlines :: "string \<Rightarrow> string list" where
  "readlines content = readlines_acc [] content"

section \<open>The server's working directory and session registry\<close>

text \<open>
  The files the server touches, keyed by the path string it passes to the operating
  system, in the order \<open>os.listdir\<close> reports them. A path is looked up as it is written:
  \<open>.\<close>, \<open>..\<close>, doubled separators and absolute paths are not resolved. Reading in text
  mode decodes the whole file as UTF-8.
\<close>

datatype node = File bytes | Dir

datatype exn =
  FileNotFoundError | IsADirectoryError | NotADirectoryError | UnicodeDecodeError
  | IndexError | OSError

type_synonym files = "(string \<times> node) list"

record world =
  logged_users :: "string set"
  files :: files

definition UPLOAD_DIR :: string where "UPLOAD_DIR = ''uploads''"
definition CREDENTIALS_FILE :: string where "CREDENTIALS_FILE = ''credentials.txt''"

definition path_exists :: "files \<Rightarrow> string \<Rightarrow> bool" where
  "path_exists fs p \<longleftrightarrow> map_of fs p \<noteq> None"

definition isfile :: "files \<Rightarrow> string \<Rightarrow> bool" where
  "isfile fs p \<longleftrightarrow> (case map_of fs p of Some (File _) \<Rightarrow> True | _ \<Rightarrow> False)"

definition dirname :: "string \<Rightarrow> string" where
  "dirname p = rev (tl (dropWhile (\<lambda>c. c \<noteq> CHR ''/'') (rev p)))"

definition join :: "string \<Rightarrow> string \<Rightarrow> string" where
  "join a b =
     (if b \<noteq> [] \<and> hd b = CHR ''/'' then b
      else if a = [] \<or> last a = CHR ''/'' then a @ b
      else a @ ''/'' @ b)"

text \<open>Creating a file needs a name and, for a path with a separator, its directory.\<close>

definition can_create :: "files \<Rightarrow> string \<Rightarrow> bool" where
  "can_create fs p \<longleftrightarrow>
     (if p = [] then False
      else if CHR ''/'' \<in> set p then map_of fs (dirname p) = Some Dir
      else True)"

definition read_bytes :: "files \<Rightarrow> string \<Rightarrow> exn + bytes" where
  "read_bytes fs p =
     (case map_of fs p of
        None \<Rightarrow> Inl FileNotFoundError
      | Some Dir \<Rightarrow> Inl IsADirectoryError
      | Some (File c) \<Rightarrow> Inr c)"

definition read_text :: "files \<Rightarrow> string \<Rightarrow> exn + string" where
  "read_text fs p =
     (case read_bytes fs p of
        Inl e \<Rightarrow> Inl e
      | Inr c \<Rightarrow> if utf8_valid c then Inr (universal_newlines c) else Inl UnicodeDecodeError)"

text \<open>\<open>open(p, 'w')\<close> or \<open>open(p, 'wb')\<close>, writing \<open>content\<close>, then closing.\<close>

definition write_file :: "files \<Rightarrow> string \<Rightarrow> bytes \<Rightarrow> exn + files" where
  "write_file fs p content =
     (case map_of fs p of
        Some Dir \<Rightarrow> Inl IsADirectoryError
      | Some (File _) \<Rightarrow> Inr (AList.update p (File content) fs)
      | None \<Rightarrow>
          if can_create fs p then Inr (AList.update p (File content) fs)
          else Inl FileNotFoundError)"

text \<open>\<open>open(p, 'a')\<close>, writing \<open>text\<close>, then closing.\<close>

definition append_file :: "files \<Rightarrow> string \<Rightarrow> string \<Rightarrow> exn + files" where
  "append_file fs p text =
     (case map_of fs p of
        Some Dir \<Rightarrow> Inl IsADirectoryError
      | Some (File c) \<Rightarrow> Inr (AList.update p (File (c @ text)) fs)
      | None \<Rightarrow>
          if can_create fs p then Inr (AList.update p (File text) fs)
          else Inl FileNotFoundError)"

definition os_remove :: "files \<Rightarrow> string \<Rightarrow> exn + files" where
  "os_remove fs p =
     (case map_of fs p of
        None \<Rightarrow> Inl FileNotFoundError
      | Some Dir \<Rightarrow> Inl IsADirectoryError
      | Some (File _) \<Rightarrow> Inr (AList.delete p fs))"

text \<open>The entries of the working directory, and of a directory below it.\<close>

definition listdir_cwd :: "files \<Rightarrow> string list" where
  "listdir_cwd fs = filter (\<lambda>n. CHR ''/'' \<notin> set n) (map fst fs)"

definition listdir :: "files \<Rightarrow> string \<Rightarrow> string list" where
  "listdir fs d =
     map (\<lambda>p. drop (Suc (length d)) p)
       (filter (\<lambda>p. CHR ''/'' \<in> set p \<and> dirname p = d) (map fst fs))"

definition os_rmdir :: "files \<Rightarrow> string \<Rightarrow> exn + files" where
  "os_rmdir fs d =
     (case map_of fs d of
        None \<Rightarrow> Inl FileNotFoundError
      | Some (File _) \<Rightarrow> Inl NotADirectoryError
      | Some Dir \<Rightarrow> if listdir fs d = [] then Inr (AList.delete d fs) else Inl OSError)"

text \<open>\<open>os.makedirs(p)\<close>, called only when \<open>p\<close> does not exist.\<close>

definition ancestors :: "string \<Rightarrow> string list" where
  "ancestors p = map (\<lambda>n. take n p) (filter (\<lambda>n. p ! n = CHR ''/'') [1..<length p]) @ [p]"

fun makedirs_from :: "files \<Rightarrow> string list \<Rightarrow> exn + files" where
  "makedirs_from fs [] = Inr fs"
| "makedirs_from fs (d # ds) =
     (case map_of fs d of
        None \<Rightarrow> makedirs_from (fs @ [(d, Dir)]) ds
      | Some Dir \<Rightarrow> makedirs_from fs ds
      | Some (File _) \<Rightarrow> Inl NotADirectoryError)"

definition os_makedirs :: "files \<Rightarrow> string \<Rightarrow> exn + files" where
  "os_makedirs fs p = makedirs_from fs (ancestors p)"

text \<open>\<open>os.path.getsize\<close>; a directory reports the size of its own block.\<close>

definition getsize :: "files \<Rightarrow> string \<Rightarrow> nat" where
  "getsize fs p = (case map_of fs p of Some (File c) \<Rightarrow> length c | _ \<Rightarrow> 4096)"

section \<open>Authentication and the thread list\<close>

text \<open>
  The table \<open>authenticate_user\<close> builds from the credentials file: a line with fewer
  than two words is skipped, and a later line for the same user wins.
\<close>

definition credentials_of :: "string list \<Rightarrow> (string \<times> string) list" where
  "credentials_of lines =
     rev (map (\<lambda>line. (words (strip line) ! 0, words (strip line) ! 1))
            (filter (\<lambda>line. strip line \<noteq> [] \<and> length (words (strip line)) \<ge> 2) lines))"

text \<open>
  \<open>authenticate_user(username, password, new_user)\<close>: the boolean it returns and the
  files afterwards.
\<close>

definition authenticate_user ::
  "files \<Rightarrow> string \<Rightarrow> string \<Rightarrow> bool \<Rightarrow> exn + (bool \<times> files)" where
  "authenticate_user fs0 username password new_user =
     (case (if \<not> path_exists fs0 CREDENTIALS_FILE then write_file fs0 CREDENTIALS_FILE []
            else Inr fs0) of
        Inl e \<Rightarrow> Inl e
      | Inr fs \<Rightarrow>
          (case read_text fs CREDENTIALS_FILE of
             Inl e \<Rightarrow> Inl e
           | Inr content \<Rightarrow>
               let credentials = credentials_of (readlines content) in
               if new_user then
                 (if map_of credentials username \<noteq> None then Inr (False, fs)
                  else (case append_file fs CREDENTIALS_FILE
                               (username @ '' '' @ password @ [CHR 0x0A]) of
                          Inl e \<Rightarrow> Inl e
                        | Inr fs' \<Rightarrow> Inr (True, fs')))
               else Inr (map_of credentials username = Some password, fs)))"

text \<open>
  The table \<open>client_handler\<close> builds by a dictionary comprehension: every line that is
  not blank must have two words, or \<open>line.split()[1]\<close> raises \<open>IndexError\<close>.
\<close>

fun credentials_strict :: "string list \<Rightarrow> exn + (string \<times> string) list" where
  "credentials_strict [] = Inr []"
| "credentials_strict (line # rest) =
     (if strip line \<noteq> [] then
        (if length (words line) < 2 then Inl IndexError
         else (case credentials_strict rest of
                 Inl e \<Rightarrow> Inl e
               | Inr table \<Rightarrow> Inr (table @ [(words line ! 0, words line ! 1)])))
      else credentials_strict rest)"

definition user_exists :: "files \<Rightarrow> string \<Rightarrow> exn + bool" where
  "user_exists fs username =
     (if path_exists fs CREDENTIALS_FILE then
        (case read_text fs CREDENTIALS_FILE of
           Inl e \<Rightarrow> Inl e
         | Inr content \<Rightarrow>
             (case credentials_strict (readlines content) of
                Inl e \<Rightarrow> Inl e
              | Inr credentials \<Rightarrow> Inr (map_of credentials username \<noteq> None)))
      else Inr False)"

definition get_thread_list :: "files \<Rightarrow> string list" where
  "get_thread_list fs =
     filter (\<lambda>file. isfile fs file \<and> \<not> prefix ''.'' file
                    \<and> file \<notin> set [''server.py'', ''client.py'', ''credentials.txt''])
       (listdir_cwd fs)"

section \<open>The command dispatcher\<close>

text \<open>
  One iteration of the command loop gives the replies handed to \<open>reliable_send\<close>, in
  order, the chunks written to the stream socket, the world afterwards, and how the
  iteration ends: the loop goes on, \<open>break\<close>, or an exception leaves the loop.
\<close>

datatype flow = Continue | Break | Raised exn

record outcome =
  replies :: "string list"
  tcp_sent :: "bytes list"
  world_after :: world
  flow :: flow

definition reply :: "world \<Rightarrow> string \<Rightarrow> outcome" where
  "reply w text = \<lparr>replies = [text], tcp_sent = [], world_after = w, flow = Continue\<rparr>"

definition raise :: "world \<Rightarrow> string list \<Rightarrow> exn \<Rightarrow> outcome" where
  "raise w sent e = \<lparr>replies = sent, tcp_sent = [], world_after = w, flow = Raised e\<rparr>"

definition set_files :: "world \<Rightarrow> files \<Rightarrow> world" where
  "set_files w fs = w\<lparr>files := fs\<rparr>"

definition cmd_CRT :: "string \<Rightarrow> world \<Rightarrow> string \<Rightarrow> outcome" where
  "cmd_CRT username w thread_title =
     (if path_exists (files w) thread_title
      then reply w (''Thread '' @ thread_title @ '' already exists'')
      else (case write_file (files w) thread_title (username @ [CHR 0x0A]) of
              Inl e \<Rightarrow> raise w [] e
            | Inr fs \<Rightarrow>
                reply (set_files w fs) (''Thread '' @ thread_title @ '' created successfully'')))"

text \<open>\<open>"\n".join(threads)\<close>.\<close>

fun join_lines :: "string list \<Rightarrow> string" where
  "join_lines [] = []"
| "join_lines [x] = x"
| "join_lines (x # y # r) = x @ [CHR 0x0A] @ join_lines (y # r)"

definition cmd_LST :: "world \<Rightarrow> outcome" where
  "cmd_LST w =
     (let threads = get_thread_list (files w) in
      if threads \<noteq> [] then reply w (''Threads:'' @ [CHR 0x0A] @ join_lines threads)
      else reply w ''No threads available'')"

definition cmd_MSG :: "string \<Rightarrow> world \<Rightarrow> string \<Rightarrow> outcome" where
  "cmd_MSG username w args =
     (let msg_parts = split (CHR '' '') 1 args in
      if length msg_parts < 2
      then reply w ''Invalid message format. Use: MSG threadtitle message''
      else
        let thread_title = msg_parts ! 0; message = msg_parts ! 1 in
        if \<not> path_exists (files w) thread_title
        then reply w (''Thread '' @ thread_title @ '' does not exist'')
        else (case read_text (files w) thread_title of
                Inl e \<Rightarrow> raise w [] e
              | Inr content \<Rightarrow>
                  let lines = readlines content; msg_number = length lines in
                  (case append_file (files w) thread_title
                          (str_nat msg_number @ '' '' @ username @ '': '' @ message
                           @ [CHR 0x0A]) of
                     Inl e \<Rightarrow> raise w [] e
                   | Inr fs \<Rightarrow>
                       reply (set_files w fs) (''Message posted to '' @ thread_title))))"

definition cmd_RDT :: "world \<Rightarrow> string \<Rightarrow> outcome" where
  "cmd_RDT w thread_title =
     (if \<not> path_exists (files w) thread_title
      then reply w (''Thread '' @ thread_title @ '' does not exist'')
      else (case read_text (files w) thread_title of
              Inl e \<Rightarrow> raise w [] e
            | Inr content \<Rightarrow>
                let lines = readlines content in
                if length lines \<le> 1 then reply w (''Thread '' @ thread_title @ '' is empty'')
                else reply w (''Thread '' @ thread_title @ '':'' @ [CHR 0x0A]
                              @ concat (tl lines))))"

text \<open>The body of the renumbering loop of DLT, for the line at index \<open>i\<close>.\<close>

definition renumber_line :: "nat \<Rightarrow> string \<Rightarrow> string" where
  "renumber_line i old_line =
     (if strip old_line \<noteq> [] \<and> CHR '' '' \<in> set old_line then
        (let old_msg_num = split (CHR '' '') 1 old_line ! 0
         in replace_first (old_msg_num @ '' '') (str_nat i @ '' '') old_line)
      else old_line)"

text \<open>\<open>for i in range(i, len(lines)): lines[i] = ...\<close>\<close>

function renumber :: "nat \<Rightarrow> string list \<Rightarrow> string list" where
  "renumber i lines =
     (if i < length lines then renumber (Suc i) (lines[i := renumber_line i (lines ! i)])
      else lines)"
  by pat_completeness auto
termination
  by (relation "measure (\<lambda>(i, lines). length lines - i)") auto

declare renumber.simps [simp del]

text \<open>\<open>lines.pop(k)\<close> for an index in range.\<close>

definition pop :: "nat \<Rightarrow> 'a list \<Rightarrow> 'a list" where
  "pop k xs = take k xs @ drop (Suc k) xs"

text \<open>DLT once its arguments are parsed and the thread is known to exist.\<close>

definition dlt_message :: "string \<Rightarrow> world \<Rightarrow> string \<Rightarrow> int \<Rightarrow> outcome" where
  "dlt_message username w thread_title message_number =
     (case read_text (files w) thread_title of
        Inl e \<Rightarrow> raise w [] e
      | Inr content \<Rightarrow>
          let lines = readlines content in
          if message_number \<le> 0 \<or> message_number \<ge> int (length lines)
          then reply w (''Message '' @ str_int message_number
                        @ '' does not exist in thread '' @ thread_title)
          else if \<not> prefix (str_int message_number @ '' '' @ username @ '':'')
                        (lines ! nat message_number)
          then reply w ''You can only delete your own messages''
          else
            (case write_file (files w) thread_title
                    (concat (renumber (nat message_number)
                               (pop (nat message_number) lines))) of
               Inl e \<Rightarrow> raise w [] e
             | Inr fs \<Rightarrow>
                 reply (set_files w fs)
                   (''Message '' @ str_int message_number @ '' deleted from ''
                    @ thread_title)))"

definition cmd_DLT :: "string \<Rightarrow> world \<Rightarrow> string \<Rightarrow> outcome" where
  "cmd_DLT username w args =
     (let dlt_parts = split (CHR '' '') 1 args in
      if length dlt_parts < 2
      then reply w ''Invalid delete format. Use: DLT threadtitle messagenumber''
      else
        let thread_title = dlt_parts ! 0 in
        (case py_int (dlt_parts ! 1) of
           None \<Rightarrow> reply w ''Invalid message number''
         | Some message_number \<Rightarrow>
             if \<not> path_exists (files w) thread_title
             then reply w (''Thread '' @ thread_title @ '' does not exist'')
             else dlt_message username w thread_title message_number))"

definition cmd_EDT :: "string \<Rightarrow> world \<Rightarrow> string \<Rightarrow> outcome" where
  "cmd_EDT username w args =
     (let remaining = split (CHR '' '') 2 args in
      if length remaining < 3
      then reply w ''Invalid edit format. Use: EDT threadtitle messagenumber message''
      else
        let thread_title = remaining ! 0 in
        (case py_int (remaining ! 1) of
           None \<Rightarrow> reply w ''Invalid message number''
         | Some message_number \<Rightarrow>
             let new_message = remaining ! 2 in
             if \<not> path_exists (files w) thread_title
             then reply w (''Thread '' @ thread_title @ '' does not exist'')
             else (case read_text (files w) thread_title of
                     Inl e \<Rightarrow> raise w [] e
                   | Inr content \<Rightarrow>
                       let lines = readlines content in
                       if message_number \<le> 0 \<or> message_number \<ge> int (length lines)
                       then reply w (''Message '' @ str_int message_number
                                     @ '' does not exist in thread '' @ thread_title)
                       else if \<not> prefix (str_int message_number @ '' '' @ username @ '':'')
                                     (lines ! nat message_number)
                       then reply w ''You can only edit your own messages''
                       else
                         (case write_file (files w) thread_title
                                 (concat (lines[nat message_number :=
                                    str_int message_number @ '' '' @ username @ '': ''
                                    @ new_message @ [CHR 0x0A]])) of
                            Inl e \<Rightarrow> raise w [] e
                          | Inr fs \<Rightarrow>
                              reply (set_files w fs)
                                (''Message '' @ str_int message_number @ '' edited in ''
                                 @ thread_title)))))"

text \<open>\<open>f.readline()\<close> on a file just opened.\<close>

definition readline :: "string \<Rightarrow> string" where
  "readline content = (case readlines content of [] \<Rightarrow> [] | l # _ \<Rightarrow> l)"

text \<open>\<open>for file in os.listdir(d): os.remove(os.path.join(d, file))\<close>, stopping at the
  first exception with what was removed so far.\<close>

fun remove_all :: "files \<Rightarrow> string \<Rightarrow> string list \<Rightarrow> files \<times> exn option" where
  "remove_all fs d [] = (fs, None)"
| "remove_all fs d (file # rest) =
     (case os_remove fs (join d file) of
        Inl e \<Rightarrow> (fs, Some e)
      | Inr fs' \<Rightarrow> remove_all fs' d rest)"

definition cmd_RMV :: "string \<Rightarrow> world \<Rightarrow> string \<Rightarrow> outcome" where
  "cmd_RMV username w thread_title =
     (if \<not> path_exists (files w) thread_title
      then reply w (''Thread '' @ thread_title @ '' does not exist'')
      else (case read_text (files w) thread_title of
              Inl e \<Rightarrow> raise w [] e
            | Inr content \<Rightarrow>
                let creator = strip (readline content) in
                if creator \<noteq> username
                then reply w ''You can only remove threads you created''
                else (case os_remove (files w) thread_title of
                        Inl e \<Rightarrow> raise w [] e
                      | Inr fs1 \<Rightarrow>
                          let thread_upload_dir = join UPLOAD_DIR thread_title in
                          if path_exists fs1 thread_upload_dir then
                            (case remove_all fs1 thread_upload_dir
                                    (listdir fs1 thread_upload_dir) of
                               (fs2, Some e) \<Rightarrow> raise (set_files w fs2) [] e
                             | (fs2, None) \<Rightarrow>
                                 (case os_rmdir fs2 thread_upload_dir of
                                    Inl e \<Rightarrow> raise (set_files w fs2) [] e
                                  | Inr fs3 \<Rightarrow>
                                      reply (set_files w fs3)
                                        (''Thread '' @ thread_title @ '' removed'')))
                          else reply (set_files w fs1)
                                 (''Thread '' @ thread_title @ '' removed''))))"

text \<open>
  The receive loop of UPD. \<open>chunks\<close> are the results of the successive
  \<open>client_sock.recv\<close> calls until the peer closes the stream, after which \<open>recv\<close>
  gives the empty bytes; the result is what was written to the file.
\<close>

fun upd_receive :: "bytes list \<Rightarrow> bytes \<Rightarrow> bytes" where
  "upd_receive [] written = written"
| "upd_receive (data # rest) written =
     (if data = [] \<or> data = ''EOF'' then written else upd_receive rest (written @ data))"

definition cmd_UPD :: "string \<Rightarrow> world \<Rightarrow> string \<Rightarrow> bytes list \<Rightarrow> outcome" where
  "cmd_UPD username w args chunks =
     (let upd_parts = split (CHR '' '') 1 args in
      if length upd_parts < 2
      then reply w ''Invalid upload format. Use: UPD threadtitle filename''
      else
        let thread_title = upd_parts ! 0; filename = upd_parts ! 1 in
        if \<not> path_exists (files w) thread_title
        then reply w (''Thread '' @ thread_title @ '' does not exist'')
        else
          let thread_upload_dir = join UPLOAD_DIR thread_title in
          (case (if \<not> path_exists (files w) thread_upload_dir
                 then os_makedirs (files w) thread_upload_dir else Inr (files w)) of
             Inl e \<Rightarrow> raise w [] e
           | Inr fs1 \<Rightarrow>
               let file_path = join thread_upload_dir filename;
                   ready = ''Ready for TCP transfer'' in
               (case write_file fs1 file_path (upd_receive chunks []) of
                  Inl e \<Rightarrow> raise (set_files w fs1) [ready] e
                | Inr fs2 \<Rightarrow>
                    (case append_file fs2 thread_title
                            (username @ '' uploaded '' @ filename @ [CHR 0x0A]) of
                       Inl e \<Rightarrow> raise (set_files w fs2) [ready] e
                     | Inr fs3 \<Rightarrow>
                         \<lparr>replies = [ready, ''File '' @ filename @ '' uploaded successfully''],
                          tcp_sent = [], world_after = set_files w fs3, flow = Continue\<rparr>))))"

text \<open>The send loop of DWN: the file in blocks of \<open>BUFFER_SIZE\<close> bytes.\<close>

function dwn_send :: "bytes \<Rightarrow> bytes list" where
  "dwn_send content =
     (if content = [] then []
      else take BUFFER_SIZE content # dwn_send (drop BUFFER_SIZE content))"
  by pat_completeness auto
termination
  by (relation "measure length") (auto simp: BUFFER_SIZE_def)

declare dwn_send.simps [simp del]

definition cmd_DWN :: "world \<Rightarrow> string \<Rightarrow> outcome" where
  "cmd_DWN w args =
     (let dwn_parts = split (CHR '' '') 1 args in
      if length dwn_parts < 2
      then reply w ''Invalid download format. Use: DWN threadtitle filename''
      else
        let thread_title = dwn_parts ! 0; filename = dwn_parts ! 1;
            thread_upload_dir = join UPLOAD_DIR thread_title;
            file_path = join thread_upload_dir filename in
        if \<not> path_exists (files w) thread_title
        then reply w (''Thread '' @ thread_title @ '' does not exist'')
        else if \<not> path_exists (files w) file_path
        then reply w (''File '' @ filename @ '' does not exist in thread '' @ thread_title)
        else
          let file_size = getsize (files w) file_path;
              ready = ''Ready for TCP transfer|'' @ str_nat file_size in
          (case read_bytes (files w) file_path of
             Inl e \<Rightarrow> raise w [ready] e
           | Inr content \<Rightarrow>
               \<lparr>replies = [ready, ''File '' @ filename @ '' downloaded successfully''],
                tcp_sent = dwn_send content, world_after = w, flow = Continue\<rparr>))"

text \<open>
  What \<open>reliable_recv\<close> hands to the handler, with the chunks the peer writes to the
  stream socket should the command open one.
\<close>

record input =
  cmd_data :: bytes
  cmd_binary :: bool
  tcp_stream :: "bytes list"

text \<open>One iteration of the main command loop.\<close>

definition command_step :: "string \<Rightarrow> world \<Rightarrow> input \<Rightarrow> outcome" where
  "command_step username w i =
     (if cmd_data i = []
      then \<lparr>replies = [], tcp_sent = [], world_after = w, flow = Continue\<rparr>
      else
        let cmd = (if \<not> cmd_binary i then cmd_data i else decode_replace (cmd_data i));
            parts = split (CHR '' '') 1 (strip cmd);
            command = upper (parts ! 0)
        in if command = ''XIT'' then
             \<lparr>replies = [''Goodbye''], tcp_sent = [],
              world_after = w\<lparr>logged_users := logged_users w - {username}\<rparr>, flow = Break\<rparr>
           else if command = ''CRT'' \<and> length parts > 1 then cmd_CRT username w (parts ! 1)
           else if command = ''LST'' then cmd_LST w
           else if command = ''MSG'' \<and> length parts > 1 then cmd_MSG username w (parts ! 1)
           else if command = ''RDT'' \<and> length parts > 1 then cmd_RDT w (parts ! 1)
           else if command = ''DLT'' \<and> length parts > 1 then cmd_DLT username w (parts ! 1)
           else if command = ''EDT'' \<and> length parts > 1 then cmd_EDT username w (parts ! 1)
           else if command = ''RMV'' \<and> length parts > 1 then cmd_RMV username w (parts ! 1)
           else if command = ''UPD'' \<and> length parts > 1
             then cmd_UPD username w (parts ! 1) (tcp_stream i)
           else if command = ''DWN'' \<and> length parts > 1 then cmd_DWN w (parts ! 1)
           else reply w ''Invalid command'')"

section \<open>The session worker\<close>

text \<open>
  A run of \<open>client_handler\<close> over the inputs that arrive: it is still blocked in
  \<open>reliable_recv\<close> when they are used up, or it has returned, or an exception was
  caught and logged; in the last two cases the \<open>finally\<close> block has run. The value
  \<open>reliable_send\<close> returns is never looked at by the handler, so a reply is recorded
  as the text handed to it. One worker is run at a time: the interleaving of threads is
  outside the model, and two sessions are followed by running one on the world the other
  has left.
\<close>

datatype ending = Waiting | Returned | Crashed exn

record session =
  session_replies :: "string list"
  session_tcp :: "bytes list"
  session_world :: world
  session_end :: ending

definition stop :: "ending \<Rightarrow> world \<Rightarrow> string list \<Rightarrow> session" where
  "stop e w said =
     \<lparr>session_replies = said, session_tcp = [], session_world = w, session_end = e\<rparr>"

definition after :: "string list \<Rightarrow> bytes list \<Rightarrow> session \<Rightarrow> session" where
  "after said sent s =
     s\<lparr>session_replies := said @ session_replies s, session_tcp := sent @ session_tcp s\<rparr>"

fun command_loop :: "string \<Rightarrow> world \<Rightarrow> input list \<Rightarrow> session" where
  "command_loop username w [] = stop Waiting w []"
| "command_loop username w (i # rest) =
     (let r = command_step username w i in
      case flow r of
        Continue \<Rightarrow> after (replies r) (tcp_sent r) (command_loop username (world_after r) rest)
      | Break \<Rightarrow> after (replies r) (tcp_sent r) (stop Returned (world_after r) [])
      | Raised e \<Rightarrow> after (replies r) (tcp_sent r) (stop (Crashed e) (world_after r) []))"

definition finally_block :: "string \<Rightarrow> session \<Rightarrow> session" where
  "finally_block username s =
     (if session_end s = Waiting then s
      else s\<lparr>session_world :=
               (session_world s)\<lparr>logged_users := logged_users (session_world s) - {username}\<rparr>\<rparr>)"

definition login :: "string \<Rightarrow> world \<Rightarrow> files \<Rightarrow> world" where
  "login username w fs = w\<lparr>logged_users := insert username (logged_users w), files := fs\<rparr>"

definition client_handler :: "world \<Rightarrow> input list \<Rightarrow> session" where
  "client_handler w inputs =
     (case inputs of
        [] \<Rightarrow> stop Waiting w []
      | i0 # rest0 \<Rightarrow>
          let username = strip (cmd_data i0) in
          finally_block username
            (if username = [] then stop Returned w [''Invalid username'']
             else if username \<in> logged_users w then stop Returned w [''Username in use'']
             else
               (case user_exists (files w) username of
                  Inl e \<Rightarrow> stop (Crashed e) w []
                | Inr True \<Rightarrow>
                    (case rest0 of
                       [] \<Rightarrow> stop Waiting w [''Username OK'']
                     | i1 # rest1 \<Rightarrow>
                         (case authenticate_user (files w) username (cmd_data i1) False of
                            Inl e \<Rightarrow> stop (Crashed e) w [''Username OK'']
                          | Inr (ok, fs) \<Rightarrow>
                              if ok then
                                after [''Username OK'', ''Welcome''] []
                                  (command_loop username (login username w fs) rest1)
                              else stop Returned (set_files w fs)
                                     [''Username OK'', ''Invalid Password'']))
                | Inr False \<Rightarrow>
                    (case rest0 of
                       [] \<Rightarrow> stop Waiting w [''New User'']
                     | i1 # rest1 \<Rightarrow>
                         (case authenticate_user (files w) username (cmd_data i1) True of
                            Inl e \<Rightarrow> stop (Crashed e) w [''New User'']
                          | Inr (ok, fs) \<Rightarrow>
                              if ok then
                                after [''New User'', ''Account Created''] []
                                  (command_loop username (login username w fs) rest1)
                              else stop Returned (set_files w fs)
                                     [''New User'', ''Account creation failed''])))))"

section \<open>Notions used in the properties\<close>




text \<open>Concrete surroundings: a peer, random draws that are all 0, a socket on which
  nothing arrives, and one on which the datagram \<open>5\<close> keeps arriving.\<close>

definition peer :: addr where "peer = (''10.0.0.9'', 4000)"

definition draws :: "nat \<Rightarrow> real" where "draws = (\<lambda>k. 0)"



definition one_datagram :: "bytes \<Rightarrow> nat \<Rightarrow> recv_event" where
  "one_datagram frame = (\<lambda>k. Datagram frame peer)"

text \<open>
  What the receiver has sent when it returns \<open>payload\<close> for a frame: the bytes before
  the first \<open>|\<close> as the acknowledgment when the frame has a \<open>|\<close>; nothing when it has
  none, and then the frame itself is the text payload.
\<close>

definition acked :: "bytes \<Rightarrow> addr \<Rightarrow> bytes \<Rightarrow> bool \<Rightarrow> (bytes \<times> addr) list \<Rightarrow> bool" where
  "acked frame addr payload binary acks =
     (if CHR ''|'' \<in> set frame
      then acks = [(takeWhile (\<lambda>c. c \<noteq> CHR ''|'') frame, addr)]
      else acks = [] \<and> payload = frame \<and> \<not> binary)"

text \<open>
  A server just started (the upload directory exists, nothing else), text frames, and a
  frame whose command opens a stream on which the peer writes \<open>chunks\<close>.
\<close>

definition fresh :: world where
  "fresh = \<lparr>logged_users = {}, files = [(''uploads'', Dir)]\<rparr>"

definition text_frame :: "string \<Rightarrow> input" where
  "text_frame s = \<lparr>cmd_data = s, cmd_binary = False, tcp_stream = []\<rparr>"


text \<open>The end-to-end scenario of the specification.\<close>

definition cantina_session :: "input list" where
  "cantina_session =
     [text_frame ''Han'', text_frame ''solo1'', text_frame ''CRT Cantina'',
      text_frame ''MSG Cantina Hello'', text_frame ''RDT Cantina'']"

text \<open>The world while a session that logged in as the new user Han is waiting for its
  next command.\<close>

definition han_logged_in :: world where
  "han_logged_in =
     session_world (client_handler fresh [text_frame ''Han'', text_frame ''solo1''])"

text \<open>The world after the user \<open>Han:x\<close> has created thread \<open>T\<close>, posted one message and
  left.\<close>

definition thread_of_hanx :: world where
  "thread_of_hanx =
     session_world (client_handler fresh
       [text_frame ''Han:x'', text_frame ''pw'', text_frame ''CRT T'', text_frame ''MSG T hi'',
        text_frame ''XIT''])"





text \<open>A working directory that holds the files of the repository (contents left out),
  the credentials, the upload directory and one thread.\<close>

definition repository_directory :: world where
  "repository_directory =
     \<lparr>logged_users = {''Han''},
      files = [(''server.py'', File []), (''server1.py'', File []), (''client.py'', File []),
               (''run_test.py'', File []), (''testfile.py'', File []), (''.gitignore'', File []),
               (''credentials.txt'', File ''Han solo1\<newline>''), (''uploads'', Dir),
               (''Cantina'', File ''Han\<newline>'')]\<rparr>"

text \<open>
  An iteration of the command loop is answered when it sent one reply, or two of which
  the first is the notice that opens a stream transfer; it completes when no exception
  left the loop.
\<close>

definition answered :: "outcome \<Rightarrow> bool" where
  "answered r \<longleftrightarrow>
     (if length (replies r) = 1 then True
      else length (replies r) = 2 \<and> prefix ''Ready for TCP transfer'' (hd (replies r)))"

definition completes :: "outcome \<Rightarrow> bool" where
  "completes r \<longleftrightarrow> (case flow r of Raised e \<Rightarrow> False | _ \<Rightarrow> True)"

definition well_answered :: "outcome \<Rightarrow> bool" where
  "well_answered r \<longleftrightarrow> (if completes r then answered r else True)"


section \<open>Properties of the reliable datagram channel\<close>

subsection \<open>Sending: retries are counted by timeouts\<close>









subsection \<open>Receiving: acknowledgments\<close>

lemma split_once:
  "sep \<in> set s \<Longrightarrow>
   split sep 1 s = [takeWhile (\<lambda>c. c \<noteq> sep) s, tl (dropWhile (\<lambda>c. c \<noteq> sep) s)]"
  by simp

lemma takeWhile_absent: "sep \<notin> set s \<Longrightarrow> takeWhile (\<lambda>c. c \<noteq> sep) s = s"
  by (induction s) auto

lemma split_hd: "0 < n \<Longrightarrow> split sep n s ! 0 = takeWhile (\<lambda>c. c \<noteq> sep) s"
  by (cases n) (auto simp: takeWhile_absent)

lemma split_long: "length (split sep n s) \<ge> 2 \<Longrightarrow> sep \<in> set s"
  by (cases n) (auto split: if_splits)

lemma recv_datagram_acked:
  assumes "recv_datagram frame addr = Some ((payload, a, binary), acks)"
  shows "a = addr \<and> acked frame addr payload binary acks"
proof (cases "decode frame")
  case (Some decoded)
  then have d: "decoded = frame" by (simp add: decode_def split: if_splits)
  show ?thesis
    using assms Some d
    by (auto simp: recv_datagram_def acked_def split_once)
next
  case None
  show ?thesis
  proof (cases "length (split (CHR ''|'') 2 frame) \<ge> 3")
    case True
    then have "CHR ''|'' \<in> set frame" by (intro split_long[where n = 2]) simp
    with assms None True show ?thesis
      by (auto simp: recv_datagram_def acked_def Let_def split_hd decode_def split: option.splits if_splits)
  next
    case False
    with assms None show ?thesis by (simp add: recv_datagram_def Let_def)
  qed
qed

lemma client_recv_datagram_eq:
  "client_recv_datagram frame addr = map_option (\<lambda>((payload, a, binary), acks). (payload, acks)) (recv_datagram frame addr)"
  by (simp add: client_recv_datagram_def recv_datagram_def Let_def split: option.splits list.splits)

lemma reliable_recv_returns:
  assumes "reliable_recv rate random net k r = Some y"
  shows "\<forall>payload addr binary acks k'. y = ((payload, addr, binary), acks, k') \<longrightarrow>
      (\<exists>datagram. net (k' - 1) = Datagram datagram addr \<and> k < k'
         \<and> acked (take BUFFER_SIZE datagram) addr payload binary acks)"
proof (rule reliable_recv.raw_induct[where P = "\<lambda>rate random net k r y.
    \<forall>payload addr binary acks k'. y = ((payload, addr, binary), acks, k') \<longrightarrow>
      (\<exists>datagram. net (k' - 1) = Datagram datagram addr \<and> k < k'
         \<and> acked (take BUFFER_SIZE datagram) addr payload binary acks)", OF _ assms], goal_cases)
  case (1 f rate random net k r y)
  have step: "f rate random net (k + 1) r' = Some y \<Longrightarrow> ?case" for r'
    using 1(1)[of rate random net "k + 1" r' y] by (auto intro: less_trans[of k "k + 1"])
  show ?case
  proof (cases "net k")
    case Timeout
    with 1(2) have "f rate random net (k + 1) r = Some y" by simp
    then show ?thesis by (rule step)
  next
    case (Datagram datagram src)
    show ?thesis
    proof (cases "simulate_packet_loss (random r) rate")
      case True
      with 1(2) Datagram have "f rate random net (k + 1) (r + 1) = Some y" by simp
      then show ?thesis by (rule step)
    next
      case False
      show ?thesis
      proof (cases "recv_datagram (take BUFFER_SIZE datagram) src")
        case None
        with 1(2) Datagram False have "f rate random net (k + 1) (r + 1) = Some y" by simp
        then show ?thesis by (rule step)
      next
        case (Some res)
        with 1(2) Datagram False show ?thesis
          by (cases res) (auto dest: recv_datagram_acked)
      qed
    qed
  qed
qed

lemma client_reliable_recv_returns:
  assumes "client_reliable_recv rate random net k r = Some y"
  shows "\<forall>payload acks k'. y = (Some payload, acks, k') \<longrightarrow>
      (\<exists>datagram addr binary. net (k' - 1) = Datagram datagram addr \<and> k < k'
         \<and> acked (take BUFFER_SIZE datagram) addr payload binary acks)"
proof (rule client_reliable_recv.raw_induct[where P = "\<lambda>rate random net k r y.
    \<forall>payload acks k'. y = (Some payload, acks, k') \<longrightarrow>
      (\<exists>datagram addr binary. net (k' - 1) = Datagram datagram addr \<and> k < k'
         \<and> acked (take BUFFER_SIZE datagram) addr payload binary acks)", OF _ assms], goal_cases)
  case (1 f rate random net k r y)
  have step: "f rate random net (k + 1) r' = Some y \<Longrightarrow> ?case" for r'
    using 1(1)[of rate random net "k + 1" r' y] by (force dest: Suc_lessD)
  show ?case
  proof (cases "net k")
    case Timeout
    with 1(2) show ?thesis by auto
  next
    case (Datagram datagram src)
    show ?thesis
    proof (cases "simulate_packet_loss (random r) rate")
      case True
      with 1(2) Datagram have "f rate random net (k + 1) (r + 1) = Some y" by simp
      then show ?thesis by (rule step)
    next
      case False
      show ?thesis
      proof (cases "client_recv_datagram (take BUFFER_SIZE datagram) src")
        case None
        with 1(2) Datagram False have "f rate random net (k + 1) (r + 1) = Some y" by simp
        then show ?thesis by (rule step)
      next
        case (Some res)
        then obtain full where full: "recv_datagram (take BUFFER_SIZE datagram) src = Some full"
          and res: "res = (\<lambda>((payload, a, binary), acks). (payload, acks)) full"
          by (auto simp: client_recv_datagram_eq)
        obtain p a b acks0 where f: "full = ((p, a, b), acks0)" by (cases full) auto
        from recv_datagram_acked[OF full[unfolded f]] have "a = src" "acked (take BUFFER_SIZE datagram) src p b acks0" by auto
        with 1(2) Datagram False Some res f show ?thesis
          by (cases src) force
      qed
    qed
  qed
qed

text \<open>
  C2, amended: whenever the receive operation, the server's or the client's, returns a
  payload, the frame it accepted is the one read last, and if that frame holds a \<open>|\<close>
  the receiver has sent, before returning, exactly one acknowledgment, to the sender of
  the frame, made of the bytes before the first \<open>|\<close> (the sequence number). A frame
  without \<open>|\<close> is returned as text and nothing is sent for it.
\<close>

theorem reliable_recv_acknowledges_delimited_frames:
  "(reliable_recv rate random net k r = Some ((payload, addr, binary), acks, k') \<longrightarrow>
      (\<exists>datagram. net (k' - 1) = Datagram datagram addr \<and> k < k'
         \<and> acked (take BUFFER_SIZE datagram) addr payload binary acks))
   \<and> (client_reliable_recv rate random net k r = Some (Some payload, acks, k') \<longrightarrow>
      (\<exists>datagram addr binary. net (k' - 1) = Datagram datagram addr \<and> k < k'
         \<and> acked (take BUFFER_SIZE datagram) addr payload binary acks))"
proof (intro conjI impI)
  assume "reliable_recv rate random net k r = Some ((payload, addr, binary), acks, k')"
  from reliable_recv_returns[OF this]
  show "\<exists>datagram. net (k' - 1) = Datagram datagram addr \<and> k < k'
         \<and> acked (take BUFFER_SIZE datagram) addr payload binary acks"
    by blast
next
  assume "client_reliable_recv rate random net k r = Some (Some payload, acks, k')"
  from client_reliable_recv_returns[OF this]
  show "\<exists>datagram addr binary. net (k' - 1) = Datagram datagram addr \<and> k < k'
         \<and> acked (take BUFFER_SIZE datagram) addr payload binary acks"
    by blast
qed

text \<open>
  C2, as stated, fails: the frame \<open>hello\<close> has no \<open>|\<close>; it is accepted and returned,
  and no acknowledgment is sent.
\<close>

theorem reliable_recv_plain_frame_unacknowledged:
  "reliable_recv 0 draws (one_datagram ''hello'') 0 0 = Some ((''hello'', peer, False), [], 1)"
  by code_simp

text \<open>The frame \<open>7|hello\<close> is returned as \<open>hello\<close> after the acknowledgment \<open>7\<close>.\<close>

theorem reliable_recv_acknowledges_delimited_frames_witness:
  "reliable_recv 0 draws (one_datagram ''7|hello'') 0 0 = Some ((''hello'', peer, False), [(''7'', peer)], 1)
   \<and> (\<exists>datagram. one_datagram ''7|hello'' (1 - 1) = Datagram datagram peer \<and> (0::nat) < 1
         \<and> acked (take BUFFER_SIZE datagram) peer ''hello'' False [(''7'', peer)])"
proof -
  have run: "reliable_recv 0 draws (one_datagram ''7|hello'') 0 0 = Some ((''hello'', peer, False), [(''7'', peer)], 1)"
    by code_simp
  from reliable_recv_acknowledges_delimited_frames[of 0 draws "one_datagram ''7|hello''" 0 0 "''hello''" peer False "[(''7'', peer)]" 1 ] run
  show ?thesis by blast
qed


subsection \<open>Receiving: text and binary frames\<close>






lemma takeWhile_before:
  "sep \<notin> set a \<Longrightarrow> takeWhile (\<lambda>c. c \<noteq> sep) (a @ sep # b) = a"
  by (induction a) auto








section \<open>Properties of the session worker and the command dispatcher\<close>

subsection \<open>Message numbers\<close>

text \<open>
  C3, as stated, fails: in the scenario the reply to \<open>RDT Cantina\<close> does not contain
  \<open>0 Han: Hello\<close>.
\<close>

theorem first_message_is_not_numbered_0:
  "\<not> sublist ''0 Han: Hello'' (last (session_replies (client_handler fresh cantina_session)))"
  by code_simp

text \<open>
  C3, amended: message numbers start at 1, the creator line being line 0 of the thread
  file. A new user Han who authenticates, sends \<open>CRT Cantina\<close>, \<open>MSG Cantina Hello\<close> and
  \<open>RDT Cantina\<close> receives these five replies, the last one holding the line
  \<open>1 Han: Hello\<close>.
\<close>

theorem first_message_is_numbered_1:
  "session_replies (client_handler fresh cantina_session)
     = [''New User'', ''Account Created'', ''Thread Cantina created successfully'',
        ''Message posted to Cantina'', ''Thread Cantina:\<newline>1 Han: Hello\<newline>'']"
  by code_simp

subsection \<open>The session registry\<close>

text \<open>
  C4 on the code: a session is logged in as Han and waiting for a command. A second
  session sends the username Han, is answered \<open>Username in use\<close> and returns; its
  \<open>finally\<close> block removes Han from the registry, although the first session is still
  live and the second never added the entry.
\<close>

theorem rejected_login_removes_live_registry_entry:
  "session_end (client_handler fresh [text_frame ''Han'', text_frame ''solo1'']) = Waiting
   \<and> logged_users han_logged_in = {''Han''}
   \<and> session_replies (client_handler han_logged_in [text_frame ''Han'']) = [''Username in use'']
   \<and> session_end (client_handler han_logged_in [text_frame ''Han'']) = Returned
   \<and> logged_users (session_world (client_handler han_logged_in [text_frame ''Han''])) = {}"
  by code_simp

text \<open>
  The same for every world and every name in the registry: the rejected session returns
  with the name removed.
\<close>

lemma rejected_login_releases_the_name:
  assumes "strip (cmd_data i0) = username" and "username \<noteq> []"
    and "username \<in> logged_users w"
  shows "client_handler w (i0 # rest)
         = stop Returned (w\<lparr>logged_users := logged_users w - {username}\<rparr>)
             [''Username in use'']"
  using assms by (simp add: client_handler_def Let_def finally_block_def stop_def)

subsection \<open>One reply for a command\<close>

lemma well_answered_reply [simp]: "well_answered (reply w t)"
  by (simp add: well_answered_def answered_def reply_def)

lemma well_answered_raise [simp]: "well_answered (raise w s e)"
  by (simp add: well_answered_def completes_def raise_def)

lemma well_answered_ready [simp]:
  "prefix ''Ready for TCP transfer'' a \<Longrightarrow>
   well_answered \<lparr>replies = [a, b], tcp_sent = t, world_after = w, flow = f\<rparr>"
  by (simp add: well_answered_def answered_def)

lemma well_answered_one [simp]:
  "well_answered \<lparr>replies = [a], tcp_sent = t, world_after = w, flow = f\<rparr>"
  by (simp add: well_answered_def answered_def)















subsection \<open>Ownership of messages\<close>

text \<open>
  C6 on the code: the user \<open>Han:x\<close> posted message 1 of thread \<open>T\<close>, stored as the line
  \<open>1 Han:x: hi\<close>. The user \<open>Han\<close>, another account, deletes it with \<open>DLT T 1\<close>, or
  edits it with \<open>EDT T 1 mine\<close>: the line starts with \<open>1 Han:\<close>, which is all the
  handler compares.
\<close>

theorem delete_by_other_user_with_prefix_name:
  "map_of (files thread_of_hanx) ''T'' = Some (File ''Han:x\<newline>1 Han:x: hi\<newline>'')
   \<and> session_replies (client_handler thread_of_hanx
        [text_frame ''Han'', text_frame ''pw2'', text_frame ''DLT T 1''])
      = [''New User'', ''Account Created'', ''Message 1 deleted from T'']
   \<and> map_of (files (session_world (client_handler thread_of_hanx
        [text_frame ''Han'', text_frame ''pw2'', text_frame ''DLT T 1'']))) ''T''
      = Some (File ''Han:x\<newline>'')
   \<and> session_replies (client_handler thread_of_hanx
        [text_frame ''Han'', text_frame ''pw2'', text_frame ''EDT T 1 mine''])
      = [''New User'', ''Account Created'', ''Message 1 edited in T'']
   \<and> map_of (files (session_world (client_handler thread_of_hanx
        [text_frame ''Han'', text_frame ''pw2'', text_frame ''EDT T 1 mine'']))) ''T''
      = Some (File ''Han:x\<newline>1 Han: mine\<newline>'')"
  by code_simp

text \<open>
  Between names that hold no colon the comparison does tell authors apart: a message
  record of another author is refused, and nothing is written.
\<close>

lemma name_before_colon:
  assumes "prefix (u @ '':'') (a @ '':'' @ rest)"
    and "CHR '':'' \<notin> set u" and "CHR '':'' \<notin> set a"
  shows "u = a"
proof -
  from assms(1) obtain z where z: "a @ '':'' @ rest = (u @ '':'') @ z"
    by (auto simp: prefix_def)
  then have "takeWhile (\<lambda>c. c \<noteq> CHR '':'') (a @ CHR '':'' # rest)
             = takeWhile (\<lambda>c. c \<noteq> CHR '':'') (u @ CHR '':'' # z)"
    by simp
  with assms(2,3) show ?thesis by (simp add: takeWhile_before)
qed

lemma record_of_other_author:
  assumes "author \<noteq> username"
    and "CHR '':'' \<notin> set username" and "CHR '':'' \<notin> set author"
  shows "\<not> prefix (n @ '' '' @ username @ '':'') (n @ '' '' @ author @ '': '' @ body)"
proof
  assume "prefix (n @ '' '' @ username @ '':'') (n @ '' '' @ author @ '': '' @ body)"
  then have "prefix (username @ '':'') (author @ '':'' @ ('' '' @ body))" by simp
  from name_before_colon[OF this assms(2,3)] assms(1) show False by simp
qed

lemma dlt_message_of_other_author:
  assumes "read_text (files w) thread_title = Inr content"
    and "0 < k" and "k < length (readlines content)"
    and "readlines content ! k = str_int (int k) @ '' '' @ author @ '': '' @ body"
    and "author \<noteq> username"
    and "CHR '':'' \<notin> set username" and "CHR '':'' \<notin> set author"
  shows "dlt_message username w thread_title (int k)
         = reply w ''You can only delete your own messages''"
  using assms record_of_other_author[OF assms(5,6,7), of "str_int (int k)" body]
  by (simp add: dlt_message_def Let_def)

subsection \<open>Renumbering after a deletion\<close>










subsection \<open>Upload and download\<close>









subsection \<open>The thread list\<close>

lemma parse_LST: "upper (split (CHR '' '') 1 (strip ''LST'') ! 0) = ''LST''"
  by code_simp

text \<open>
  C10: the reply to LST lists, one on a line, the entries of the working directory that
  are regular files, do not start with a dot and are not named \<open>server.py\<close>,
  \<open>client.py\<close> or \<open>credentials.txt\<close>; whether a CRT command created the file plays
  no part.
\<close>

theorem lst_lists_regular_files_of_the_directory:
  "replies (command_step username w (text_frame ''LST''))
     = [if get_thread_list (files w) = [] then ''No threads available''
        else ''Threads:'' @ [CHR 0x0A] @ join_lines (get_thread_list (files w))]
   \<and> set (get_thread_list (files w))
     = {file \<in> set (listdir_cwd (files w)).
          isfile (files w) file \<and> \<not> prefix ''.'' file
          \<and> file \<noteq> ''server.py'' \<and> file \<noteq> ''client.py'' \<and> file \<noteq> ''credentials.txt''}"
  using parse_LST
  by (auto simp: command_step_def text_frame_def Let_def cmd_LST_def reply_def get_thread_list_def
      simp del: split.simps)

text \<open>In a directory that holds the repository, three of its files are listed as
  threads beside the one thread that was created.\<close>

theorem lst_lists_regular_files_of_the_directory_witness:
  "replies (command_step ''Han'' repository_directory (text_frame ''LST''))
     = [''Threads:\<newline>server1.py\<newline>run_test.py\<newline>testfile.py\<newline>Cantina'']"
proof -
  have "get_thread_list (files repository_directory)
        = [''server1.py'', ''run_test.py'', ''testfile.py'', ''Cantina'']"
    by code_simp
  with lst_lists_regular_files_of_the_directory[of "''Han''" repository_directory]
  show ?thesis by simp
qed

end
